theory Spec2Isabelle
  imports Complex_Main
begin

section \<open>Optical frames inventory: the data model\<close>

text \<open>
  The development follows \<^verbatim>\<open>models.py\<close>, \<^verbatim>\<open>main.py\<close> and \<^verbatim>\<open>telegram_bot.py\<close>.
  Text is a \<^typ>\<open>string\<close>, one \<^typ>\<open>char\<close> for each character; the characters of the
  examples have code points below 256. A Python float is a \<^typ>\<open>rat\<close>: the code only compares
  prices with zero and with bounds and averages them, and rounding is not modelled. Timestamps
  are natural numbers.
\<close>

subsection \<open>Text helpers\<close>

text \<open>
  Two lower-casings meet in the code. The store's \<^verbatim>\<open>lower()\<close> (SQLite's, also behind
  \<^verbatim>\<open>ilike\<close>) changes the letters A to Z and no other character: \<open>sql_lower\<close>. Python's
  \<^verbatim>\<open>str.lower\<close> follows Unicode; the handlers take it as the parameter \<open>py_lower\<close>, and
  \<open>str_lower\<close> is what it does on the characters below 256, where it also lowers the
  capital letters from \<^verbatim>\<open>U+00C0\<close> to \<^verbatim>\<open>U+00DE\<close> (the sign \<^verbatim>\<open>U+00D7\<close> is no letter).
\<close>

definition sql_lower_char :: "char \<Rightarrow> char" where
  "sql_lower_char c =
     (case map_of (zip ''ABCDEFGHIJKLMNOPQRSTUVWXYZ'' ''abcdefghijklmnopqrstuvwxyz'') c of
        None \<Rightarrow> c
      | Some d \<Rightarrow> d)"

definition sql_lower :: "string \<Rightarrow> string" where
  "sql_lower s = map sql_lower_char s"

definition latin1_capitals :: string where
  "latin1_capitals =
     [CHR 0xC0, CHR 0xC1, CHR 0xC2, CHR 0xC3, CHR 0xC4, CHR 0xC5, CHR 0xC6, CHR 0xC7,
      CHR 0xC8, CHR 0xC9, CHR 0xCA, CHR 0xCB, CHR 0xCC, CHR 0xCD, CHR 0xCE, CHR 0xCF,
      CHR 0xD0, CHR 0xD1, CHR 0xD2, CHR 0xD3, CHR 0xD4, CHR 0xD5, CHR 0xD6, CHR 0xD8,
      CHR 0xD9, CHR 0xDA, CHR 0xDB, CHR 0xDC, CHR 0xDD, CHR 0xDE]"

definition latin1_smalls :: string where
  "latin1_smalls =
     [CHR 0xE0, CHR 0xE1, CHR 0xE2, CHR 0xE3, CHR 0xE4, CHR 0xE5, CHR 0xE6, CHR 0xE7,
      CHR 0xE8, CHR 0xE9, CHR 0xEA, CHR 0xEB, CHR 0xEC, CHR 0xED, CHR 0xEE, CHR 0xEF,
      CHR 0xF0, CHR 0xF1, CHR 0xF2, CHR 0xF3, CHR 0xF4, CHR 0xF5, CHR 0xF6, CHR 0xF8,
      CHR 0xF9, CHR 0xFA, CHR 0xFB, CHR 0xFC, CHR 0xFD, CHR 0xFE]"

definition str_lower_char :: "char \<Rightarrow> char" where
  "str_lower_char c =
     (case map_of (zip (''ABCDEFGHIJKLMNOPQRSTUVWXYZ'' @ latin1_capitals)
                       (''abcdefghijklmnopqrstuvwxyz'' @ latin1_smalls)) c of
        None \<Rightarrow> c
      | Some d \<Rightarrow> d)"

definition str_lower :: "string \<Rightarrow> string" where
  "str_lower s = map str_lower_char s"

text \<open>\<^verbatim>\<open>x or d\<close> on an optional text and on an integer (Python truthiness).\<close>

definition str_or :: "string option \<Rightarrow> string \<Rightarrow> string" where
  "str_or x d = (case x of None \<Rightarrow> d | Some s \<Rightarrow> if s = [] then d else s)"

definition int_or :: "int \<Rightarrow> int \<Rightarrow> int" where
  "int_or x d = (if x = 0 then d else x)"

definition opt_int_or :: "int option \<Rightarrow> int \<Rightarrow> int" where
  "opt_int_or x d = (case x of None \<Rightarrow> d | Some i \<Rightarrow> int_or i d)"

subsection \<open>Python values and the two membership tests of the merge policy\<close>

datatype pyval = PNone | PStr string | PInt int | PFloat rat

text \<open>\<^verbatim>\<open>v in (None, "", 0)\<close> and \<^verbatim>\<open>v in (None, "")\<close>; in Python \<^verbatim>\<open>0.0 == 0\<close>.\<close>

fun in_none_blank_zero :: "pyval \<Rightarrow> bool" where
  "in_none_blank_zero PNone = True"
| "in_none_blank_zero (PStr s) = (s = [])"
| "in_none_blank_zero (PInt i) = (i = 0)"
| "in_none_blank_zero (PFloat x) = (x = 0)"

fun in_none_blank :: "pyval \<Rightarrow> bool" where
  "in_none_blank PNone = True"
| "in_none_blank (PStr s) = (s = [])"
| "in_none_blank (PInt i) = False"
| "in_none_blank (PFloat x) = False"

subsection \<open>Records\<close>

text \<open>
  \<^verbatim>\<open>attrs\<close> holds the ten nullable columns that the code reads and writes by name
  (\<^verbatim>\<open>getattr\<close>, \<^verbatim>\<open>setattr\<close>). A stored \<^verbatim>\<open>Frame\<close> extends it with the primary key,
  \<^verbatim>\<open>model_code\<close>, \<^verbatim>\<open>stock\<close> and \<^verbatim>\<open>created_at\<close>. The columns \<^verbatim>\<open>id\<close> and \<^verbatim>\<open>notes\<close> are
  \<open>id_f\<close> and \<open>notes_f\<close> here, since both words are taken in Isabelle. The dictionary
  that \<^verbatim>\<open>normalize_fields\<close> returns extends it with the two remaining keys, each optional;
  a key that is absent from the dictionary is \<open>None\<close>.
\<close>

record attrs =
  brand :: "string option"
  material :: "string option"
  lens_width :: "int option"
  bridge_size :: "int option"
  temple_length :: "int option"
  color :: "string option"
  shape :: "string option"
  gender :: "string option"
  price :: "rat option"
  notes_f :: "string option"

record Frame = attrs +
  id_f :: int
  model_code :: string
  stock :: int
  created_at :: nat

record Norm = attrs +
  n_model_code :: "string option"
  n_stock :: "int option"

datatype field =
  Material | Lens_width | Bridge_size | Temple_length | Color | Shape | Gender | Price | Notes
  | Brand

definition opt_val :: "('a \<Rightarrow> pyval) \<Rightarrow> 'a option \<Rightarrow> pyval" where
  "opt_val wrap x = (case x of None \<Rightarrow> PNone | Some v \<Rightarrow> wrap v)"

fun getattr :: "'a attrs_scheme \<Rightarrow> field \<Rightarrow> pyval" where
  "getattr r Material = opt_val PStr (material r)"
| "getattr r Lens_width = opt_val PInt (lens_width r)"
| "getattr r Bridge_size = opt_val PInt (bridge_size r)"
| "getattr r Temple_length = opt_val PInt (temple_length r)"
| "getattr r Color = opt_val PStr (color r)"
| "getattr r Shape = opt_val PStr (shape r)"
| "getattr r Gender = opt_val PStr (gender r)"
| "getattr r Price = opt_val PFloat (price r)"
| "getattr r Notes = opt_val PStr (notes_f r)"
| "getattr r Brand = opt_val PStr (brand r)"

text \<open>
  One round of the fill loops:
  \<^verbatim>\<open>if getattr(tgt, f) in (None, "", 0) and <test on the source value>: setattr(tgt, f, <source value>)\<close>.
  The test on the source value differs between the three loops and is the parameter \<open>ok\<close>.
\<close>

fun fill_field ::
  "(pyval \<Rightarrow> bool) \<Rightarrow> 'a attrs_scheme \<Rightarrow> field \<Rightarrow> 'b attrs_scheme \<Rightarrow> 'b attrs_scheme" where
  "fill_field ok src Material tgt =
     (if in_none_blank_zero (getattr tgt Material) \<and> ok (getattr src Material)
      then tgt\<lparr>material := material src\<rparr> else tgt)"
| "fill_field ok src Lens_width tgt =
     (if in_none_blank_zero (getattr tgt Lens_width) \<and> ok (getattr src Lens_width)
      then tgt\<lparr>lens_width := lens_width src\<rparr> else tgt)"
| "fill_field ok src Bridge_size tgt =
     (if in_none_blank_zero (getattr tgt Bridge_size) \<and> ok (getattr src Bridge_size)
      then tgt\<lparr>bridge_size := bridge_size src\<rparr> else tgt)"
| "fill_field ok src Temple_length tgt =
     (if in_none_blank_zero (getattr tgt Temple_length) \<and> ok (getattr src Temple_length)
      then tgt\<lparr>temple_length := temple_length src\<rparr> else tgt)"
| "fill_field ok src Color tgt =
     (if in_none_blank_zero (getattr tgt Color) \<and> ok (getattr src Color)
      then tgt\<lparr>color := color src\<rparr> else tgt)"
| "fill_field ok src Shape tgt =
     (if in_none_blank_zero (getattr tgt Shape) \<and> ok (getattr src Shape)
      then tgt\<lparr>shape := shape src\<rparr> else tgt)"
| "fill_field ok src Gender tgt =
     (if in_none_blank_zero (getattr tgt Gender) \<and> ok (getattr src Gender)
      then tgt\<lparr>gender := gender src\<rparr> else tgt)"
| "fill_field ok src Price tgt =
     (if in_none_blank_zero (getattr tgt Price) \<and> ok (getattr src Price)
      then tgt\<lparr>price := price src\<rparr> else tgt)"
| "fill_field ok src Notes tgt =
     (if in_none_blank_zero (getattr tgt Notes) \<and> ok (getattr src Notes)
      then tgt\<lparr>notes_f := notes_f src\<rparr> else tgt)"
| "fill_field ok src Brand tgt =
     (if in_none_blank_zero (getattr tgt Brand) \<and> ok (getattr src Brand)
      then tgt\<lparr>brand := brand src\<rparr> else tgt)"

definition fill_fields ::
  "(pyval \<Rightarrow> bool) \<Rightarrow> 'a attrs_scheme \<Rightarrow> field list \<Rightarrow> 'b attrs_scheme \<Rightarrow> 'b attrs_scheme" where
  "fill_fields ok src fs tgt = fold (fill_field ok src) fs tgt"

text \<open>The list literal of \<^verbatim>\<open>add\<close> and \<^verbatim>\<open>new_confirm\<close>, and the one of \<^verbatim>\<open>merge_cmd\<close>.\<close>

definition updatable_fields :: "field list" where
  "updatable_fields =
     [Material, Lens_width, Bridge_size, Temple_length, Color, Shape, Gender, Price, Notes]"

definition merge_fields :: "field list" where
  "merge_fields =
     [Material, Lens_width, Bridge_size, Temple_length, Color, Shape, Gender, Price, Notes, Brand]"

section \<open>The store\<close>

text \<open>
  The table \<^verbatim>\<open>frames\<close> is the list of its rows in storage order. Beside the table the
  database may hold the unique index \<^verbatim>\<open>idx_unique_brand_model\<close> over the Matching Key;
  the handlers take that fact as the argument \<open>indexed\<close>. Every handler opens one session,
  changes its objects and calls \<^verbatim>\<open>session.commit()\<close> once. The commit writes the inserts
  and updates first and the deletes last; when the index rejects a statement, the commit
  raises \<^verbatim>\<open>IntegrityError\<close>, nothing is written and the exception leaves the handler.
\<close>

datatype error =
    ValidationError string
  | NotFoundError string
  | InvalidArgumentError string
  | KeyError string
  | ZeroDivisionError
  | IntegrityError

type_synonym store = "Frame list"

definition session_get :: "store \<Rightarrow> int \<Rightarrow> Frame option" where
  "session_get rows i = find (\<lambda>r. id_f r = i) rows"

text \<open>
  \<^verbatim>\<open>session.query(Frame).filter(func.lower(Frame.model_code) == model_val)
  .filter(func.coalesce(func.lower(Frame.brand), "") == brand_val).first()\<close>
\<close>

definition coalesce :: "string option \<Rightarrow> string \<Rightarrow> string" where
  "coalesce x d = (case x of None \<Rightarrow> d | Some s \<Rightarrow> s)"

definition same_item :: "string \<Rightarrow> string \<Rightarrow> Frame \<Rightarrow> bool" where
  "same_item brand_val model_val r =
     (sql_lower (model_code r) = model_val
      \<and> coalesce (map_option sql_lower (brand r)) [] = brand_val)"

definition query_existing :: "store \<Rightarrow> string \<Rightarrow> string \<Rightarrow> Frame option" where
  "query_existing rows brand_val model_val = find (same_item brand_val model_val) rows"

text \<open>The primary key of a new row is one more than the largest key in the table.\<close>

definition next_id :: "store \<Rightarrow> int" where
  "next_id rows = (case rows of [] \<Rightarrow> 1 | r # rs \<Rightarrow> fold max (map id_f rs) (id_f r) + 1)"

text \<open>
  \<^verbatim>\<open>session.add(frame)\<close>: the insert assigns the key and the column default of
  \<^verbatim>\<open>material\<close>.
\<close>

definition session_add :: "Frame \<Rightarrow> store \<Rightarrow> store" where
  "session_add frame rows =
     rows @ [frame\<lparr>material := (case material frame of None \<Rightarrow> Some ''unknown'' | Some m \<Rightarrow> Some m),
                   id_f := next_id rows\<rparr>]"

text \<open>A changed object is written back to the row with its key; a deleted one leaves the table.\<close>

definition session_update :: "Frame \<Rightarrow> store \<Rightarrow> store" where
  "session_update obj rows = map (\<lambda>r. if id_f r = id_f obj then obj else r) rows"

definition session_delete :: "Frame \<Rightarrow> store \<Rightarrow> store" where
  "session_delete obj rows = filter (\<lambda>r. id_f r \<noteq> id_f obj) rows"

text \<open>
  The Matching Key of a stored frame as the store computes it, in the lookup above, in the
  duplicate check of \<^verbatim>\<open>init_db\<close> and in the unique index:
  \<^verbatim>\<open>LOWER(COALESCE(brand,''))\<close>, \<^verbatim>\<open>LOWER(model_code)\<close>.
\<close>

definition frame_key :: "Frame \<Rightarrow> string \<times> string" where
  "frame_key r = (coalesce (map_option sql_lower (brand r)) [], sql_lower (model_code r))"

text \<open>
  \<^verbatim>\<open>init_db\<close> of the bot: the index is there afterwards when it was there before or when
  no two rows share a Matching Key. \<^verbatim>\<open>init_db\<close> of \<^verbatim>\<open>main.py\<close> creates the table only.
\<close>

definition init_db :: "bool \<Rightarrow> store \<Rightarrow> bool" where
  "init_db indexed rows = (indexed \<or> distinct (map frame_key rows))"

text \<open>
  What the index does to a statement. An insert is rejected when a row has the key of the
  new row. An update is checked when it changes the key of its row, and rejected when another
  row has the new key. A delete is never rejected.
\<close>

definition insert_rejected :: "bool \<Rightarrow> Frame \<Rightarrow> store \<Rightarrow> bool" where
  "insert_rejected indexed frame rows =
     (indexed \<and> list_ex (\<lambda>r. frame_key r = frame_key frame) rows)"

definition update_rejected :: "bool \<Rightarrow> Frame \<Rightarrow> Frame \<Rightarrow> store \<Rightarrow> bool" where
  "update_rejected indexed old obj rows =
     (indexed \<and> frame_key obj \<noteq> frame_key old
      \<and> list_ex (\<lambda>r. id_f r \<noteq> id_f obj \<and> frame_key r = frame_key obj) rows)"

definition commit :: "bool \<Rightarrow> 'r \<Rightarrow> store \<Rightarrow> store \<Rightarrow> (error + 'r) \<times> store" where
  "commit rejected reply rows pending =
     (if rejected then (Inl IntegrityError, rows) else (Inr reply, pending))"

section \<open>The bot's \<^verbatim>\<open>/add\<close> and \<^verbatim>\<open>/new\<close>, and the command line's \<^verbatim>\<open>add\<close>\<close>

text \<open>
  \<^verbatim>\<open>Frame(**norm)\<close>: the attributes of the dictionary; \<^verbatim>\<open>stock\<close> falls back to the column
  default. The key is assigned by the insert (\<open>session_add\<close>), and both callers set
  \<^verbatim>\<open>created_at\<close> themselves.
\<close>

definition new_frame :: "Norm \<Rightarrow> string \<Rightarrow> Frame" where
  "new_frame norm' mc =
     \<lparr>brand = brand norm', material = material norm', lens_width = lens_width norm',
      bridge_size = bridge_size norm', temple_length = temple_length norm', color = color norm',
      shape = shape norm', gender = gender norm', price = price norm', notes_f = notes_f norm',
      id_f = 0, model_code = mc,
      stock = (case n_stock norm' of None \<Rightarrow> 0 | Some s \<Rightarrow> s), created_at = 0\<rparr>"

text \<open>
  The two replies of \<^verbatim>\<open>add\<close>: "Updated existing ID=.. Stock: old -> new" (the merge path)
  and "Added ID=.. Stock=.." (the create path). \<^verbatim>\<open>new_confirm\<close> answers with the same two
  cases.
\<close>

datatype add_reply = Updated_existing int int int | Added int int

text \<open>
  What the merge path of \<^verbatim>\<open>add\<close> does to the record it found: the stock grows by the
  supplied stock, or by one when none or zero was supplied, and the loop over
  \<^verbatim>\<open>updatable_fields\<close> fills the empty attributes.
\<close>

definition add_existing :: "Norm \<Rightarrow> Frame \<Rightarrow> Frame" where
  "add_existing norm' existing =
     (let add_stock = int_or (case n_stock norm' of None \<Rightarrow> 0 | Some s \<Rightarrow> s) 0;
          add_stock = (if add_stock = 0 then 1 else add_stock);
          existing1 = existing\<lparr>stock := int_or (stock existing) 0 + add_stock\<rparr>
      in fill_fields (\<lambda>v. v \<noteq> PNone \<and> \<not> in_none_blank v) norm' updatable_fields existing1)"

text \<open>
  \<^verbatim>\<open>add\<close>, from the dictionary \<^verbatim>\<open>norm\<close> on; \<open>now\<close> is \<^verbatim>\<open>datetime.utcnow()\<close>. The
  candidate's key is lower-cased by Python, the stored one by the store.
\<close>

definition add ::
  "(string \<Rightarrow> string) \<Rightarrow> bool \<Rightarrow> nat \<Rightarrow> Norm \<Rightarrow> store \<Rightarrow> (error + add_reply) \<times> store" where
  "add py_lower indexed now norm' rows =
     (case n_model_code norm' of
        None \<Rightarrow> (Inl (ValidationError ''Missing model (use model=<code>)''), rows)
      | Some mc \<Rightarrow>
          (let brand_val = py_lower (str_or (brand norm') []);
               model_val = py_lower mc
           in case query_existing rows brand_val model_val of
                Some existing \<Rightarrow>
                  (let old_stock = stock existing;
                       existing' = add_existing norm' existing
                   in commit (update_rejected indexed existing existing' rows)
                        (Updated_existing (id_f existing') old_stock (stock existing')) rows
                        (session_update existing' rows))
              | None \<Rightarrow>
                  (let frame = (new_frame norm' mc)\<lparr>created_at := now\<rparr>;
                       frame = (if n_stock norm' = None then frame\<lparr>stock := 1\<rparr> else frame)
                   in commit (insert_rejected indexed frame rows)
                        (Added (next_id rows) (stock frame)) rows (session_add frame rows))))"

text \<open>
  The merge path of \<^verbatim>\<open>new_confirm\<close>: \<^verbatim>\<open>data.get("stock") or 0 or 1\<close> is added to the stock,
  and an empty attribute is filled whenever its key is in \<^verbatim>\<open>data\<close>.
\<close>

definition new_confirm_existing :: "Norm \<Rightarrow> Frame \<Rightarrow> Frame" where
  "new_confirm_existing data existing =
     (let existing1 =
            existing\<lparr>stock := int_or (stock existing) 0 + int_or (opt_int_or (n_stock data) 0) 1\<rparr>
      in fill_fields (\<lambda>v. v \<noteq> PNone) data updatable_fields existing1)"

text \<open>
  \<^verbatim>\<open>new_confirm\<close> after the answer "yes", from the collected dictionary \<^verbatim>\<open>data\<close> on.
  \<^verbatim>\<open>data["model_code"]\<close> raises when the key is missing.
\<close>

definition new_confirm ::
  "(string \<Rightarrow> string) \<Rightarrow> bool \<Rightarrow> nat \<Rightarrow> Norm \<Rightarrow> store \<Rightarrow> (error + add_reply) \<times> store" where
  "new_confirm py_lower indexed now data rows =
     (case n_model_code data of
        None \<Rightarrow> (Inl (KeyError ''model_code''), rows)
      | Some mc \<Rightarrow>
          (let brand_val = py_lower (str_or (brand data) []);
               model_val = py_lower mc
           in case query_existing rows brand_val model_val of
                Some existing \<Rightarrow>
                  (let old_stock = stock existing;
                       existing' = new_confirm_existing data existing
                   in commit (update_rejected indexed existing existing' rows)
                        (Updated_existing (id_f existing') old_stock (stock existing')) rows
                        (session_update existing' rows))
              | None \<Rightarrow>
                  (let frame = (new_frame data mc)\<lparr>created_at := now\<rparr>
                   in commit (insert_rejected indexed frame rows)
                        (Added (next_id rows) (stock frame)) rows (session_add frame rows))))"


section \<open>The bot's \<^verbatim>\<open>/merge\<close>\<close>

text \<open>
  What \<^verbatim>\<open>merge_cmd\<close> does to the target: the stocks are added and the loop over its own
  list of fields fills the target's empty attributes from the source.
\<close>

definition merged_target :: "Frame \<Rightarrow> Frame \<Rightarrow> Frame" where
  "merged_target src tgt =
     (let tgt1 = tgt\<lparr>stock := int_or (stock tgt) 0 + int_or (stock src) 0\<rparr>
      in fill_fields (\<lambda>v. \<not> in_none_blank v) src merge_fields tgt1)"

text \<open>
  \<^verbatim>\<open>merge_cmd\<close> from the point where both ids are parsed. The result is the reply (the new
  stock of the target, or the error whose text the bot sends) and the table afterwards. The
  commit updates the target while the source is still in the table, and deletes the source
  after that.
\<close>

definition merge_cmd :: "bool \<Rightarrow> int \<Rightarrow> int \<Rightarrow> store \<Rightarrow> (error + int) \<times> store" where
  "merge_cmd indexed sid tid rows =
     (if sid = tid then (Inl (InvalidArgumentError ''Source and target must differ.''), rows)
      else
        (case (session_get rows sid, session_get rows tid) of
           (Some src, Some tgt) \<Rightarrow>
             (let tgt' = merged_target src tgt;
                  new_stock = stock tgt'
              in commit (update_rejected indexed tgt tgt' rows) new_stock rows
                   (session_delete src (session_update tgt' rows)))
         | _ \<Rightarrow> (Inl (NotFoundError ''Source or target not found''), rows)))"

section \<open>Searching\<close>

subsection \<open>\<^verbatim>\<open>normalize_fields\<close>\<close>

text \<open>
  The dictionary \<^verbatim>\<open>kv\<close> of raw texts is the list of its items in insertion order (its keys
  are distinct). \<^verbatim>\<open>FIELD_MAP\<close> gives each accepted key its column and its caster; the
  casters \<^verbatim>\<open>int\<close> and \<^verbatim>\<open>float\<close> are Python's own parsers and are parameters here, with
  \<open>None\<close> for a \<^verbatim>\<open>ValueError\<close>, as is \<^verbatim>\<open>str.lower\<close>. An entry carries the assignment
  \<^verbatim>\<open>out[field] = ...\<close>.
\<close>

datatype entry =
    As_str "string \<Rightarrow> Norm \<Rightarrow> Norm"
  | As_int "int \<Rightarrow> Norm \<Rightarrow> Norm"
  | As_float "rat \<Rightarrow> Norm \<Rightarrow> Norm"

definition FIELD_MAP :: "string \<Rightarrow> entry option" where
  "FIELD_MAP =
     map_of
       [(''brand'', As_str (\<lambda>v out. out\<lparr>brand := Some v\<rparr>)),
        (''model'', As_str (\<lambda>v out. out\<lparr>n_model_code := Some v\<rparr>)),
        (''model_code'', As_str (\<lambda>v out. out\<lparr>n_model_code := Some v\<rparr>)),
        (''material'', As_str (\<lambda>v out. out\<lparr>material := Some v\<rparr>)),
        (''lens'', As_int (\<lambda>v out. out\<lparr>lens_width := Some v\<rparr>)),
        (''lens_width'', As_int (\<lambda>v out. out\<lparr>lens_width := Some v\<rparr>)),
        (''bridge'', As_int (\<lambda>v out. out\<lparr>bridge_size := Some v\<rparr>)),
        (''bridge_size'', As_int (\<lambda>v out. out\<lparr>bridge_size := Some v\<rparr>)),
        (''temple'', As_int (\<lambda>v out. out\<lparr>temple_length := Some v\<rparr>)),
        (''temple_length'', As_int (\<lambda>v out. out\<lparr>temple_length := Some v\<rparr>)),
        (''color'', As_str (\<lambda>v out. out\<lparr>color := Some v\<rparr>)),
        (''shape'', As_str (\<lambda>v out. out\<lparr>shape := Some v\<rparr>)),
        (''gender'', As_str (\<lambda>v out. out\<lparr>gender := Some v\<rparr>)),
        (''price'', As_float (\<lambda>v out. out\<lparr>price := Some v\<rparr>)),
        (''stock'', As_int (\<lambda>v out. out\<lparr>n_stock := Some v\<rparr>)),
        (''notes'', As_str (\<lambda>v out. out\<lparr>notes_f := Some v\<rparr>))]"

definition MATERIAL_CHOICES :: "string list" where
  "MATERIAL_CHOICES =
     [''plastic'', ''acetate'', ''metal'', ''stainless steel'', ''titanium'', ''aluminum'',
      ''wood'', ''carbon fiber'', ''other'', ''unknown'']"

definition empty_dict :: Norm where
  "empty_dict =
     \<lparr>brand = None, material = None, lens_width = None, bridge_size = None,
      temple_length = None, color = None, shape = None, gender = None, price = None,
      notes_f = None, n_model_code = None, n_stock = None\<rparr>"

text \<open>One round of the loop over \<^verbatim>\<open>kv.items()\<close>.\<close>

definition normalize_item ::
  "(string \<Rightarrow> int option) \<Rightarrow> (string \<Rightarrow> rat option) \<Rightarrow> string \<times> string \<Rightarrow> Norm \<Rightarrow> Norm" where
  "normalize_item py_int py_float item out =
     (case FIELD_MAP (fst item) of
        None \<Rightarrow> out
      | Some (As_str assign) \<Rightarrow> assign (snd item) out
      | Some (As_int assign) \<Rightarrow>
          (case py_int (snd item) of None \<Rightarrow> out | Some i \<Rightarrow> assign i out)
      | Some (As_float assign) \<Rightarrow>
          (case py_float (snd item) of None \<Rightarrow> out | Some x \<Rightarrow> assign x out))"

definition normalize_fields ::
  "(string \<Rightarrow> string) \<Rightarrow> (string \<Rightarrow> int option) \<Rightarrow> (string \<Rightarrow> rat option) \<Rightarrow>
   (string \<times> string) list \<Rightarrow> Norm" where
  "normalize_fields py_lower py_int py_float kv =
     (let out = fold (normalize_item py_int py_float) kv empty_dict
      in case material out of
           None \<Rightarrow> out
         | Some m \<Rightarrow>
             if py_lower m \<notin> set MATERIAL_CHOICES then out\<lparr>material := Some ''unknown''\<rparr> else out)"

subsection \<open>Filters\<close>

text \<open>
  SQL \<^verbatim>\<open>LIKE\<close>: \<^verbatim>\<open>%\<close> stands for any run of characters and \<^verbatim>\<open>_\<close> for any one character.
  \<^verbatim>\<open>col.ilike(pattern)\<close> compares the lower-cased column with the lower-cased pattern, and a
  comparison with a null column selects nothing.
\<close>

fun like :: "string \<Rightarrow> string \<Rightarrow> bool" where
  "like [] s = (s = [])"
| "like (p # ps) s =
     (if p = CHR ''%''
      then like ps s \<or> (case s of [] \<Rightarrow> False | c # cs \<Rightarrow> like (p # ps) cs)
      else (case s of [] \<Rightarrow> False | c # cs \<Rightarrow> (p = CHR ''_'' \<or> p = c) \<and> like ps cs))"

definition ilike :: "string option \<Rightarrow> string \<Rightarrow> bool" where
  "ilike col pattern =
     (case col of None \<Rightarrow> False | Some s \<Rightarrow> like (sql_lower pattern) (sql_lower s))"

text \<open>
  The filter that one item of a dictionary of criteria adds: a text is matched with
  \<^verbatim>\<open>ilike(f"%{value}%")\<close>, any other value with \<^verbatim>\<open>col == value\<close>; no item, no filter.
\<close>

definition text_filter :: "string option \<Rightarrow> string option \<Rightarrow> bool" where
  "text_filter value col =
     (case value of None \<Rightarrow> True | Some v \<Rightarrow> ilike col (''%'' @ v @ ''%''))"

definition eq_filter :: "'a option \<Rightarrow> 'a option \<Rightarrow> bool" where
  "eq_filter value col = (case value of None \<Rightarrow> True | Some v \<Rightarrow> col = Some v)"

definition min_filter :: "rat option \<Rightarrow> rat option \<Rightarrow> bool" where
  "min_filter bound col =
     (case bound of None \<Rightarrow> True | Some b \<Rightarrow> (case col of None \<Rightarrow> False | Some p \<Rightarrow> b \<le> p))"

definition max_filter :: "rat option \<Rightarrow> rat option \<Rightarrow> bool" where
  "max_filter bound col =
     (case bound of None \<Rightarrow> True | Some b \<Rightarrow> (case col of None \<Rightarrow> False | Some p \<Rightarrow> p \<le> b))"

text \<open>
  \<^verbatim>\<open>order_by(Frame.created_at.desc()).limit(n)\<close>. The store promises no order among rows of
  equal time; the later row comes first here.
\<close>

definition newest_first :: "nat \<Rightarrow> store \<Rightarrow> store" where
  "newest_first n rows = take n (rev (sort_key created_at rows))"

subsection \<open>The bot's \<^verbatim>\<open>/search\<close>\<close>

text \<open>
  \<^verbatim>\<open>search\<close> from the dictionary \<^verbatim>\<open>data\<close> on: the criteria pass through
  \<^verbatim>\<open>normalize_fields\<close>, every key of the result adds its filter, and the two price bounds are
  read from \<^verbatim>\<open>data\<close> itself. The result is the list of rows behind the reply (empty for
  "No matches.").
\<close>

definition search_filters :: "Norm \<Rightarrow> rat option \<Rightarrow> rat option \<Rightarrow> Frame \<Rightarrow> bool" where
  "search_filters norm' min_price max_price r =
     (text_filter (brand norm') (brand r)
      \<and> text_filter (n_model_code norm') (Some (model_code r))
      \<and> text_filter (material norm') (material r)
      \<and> eq_filter (lens_width norm') (lens_width r)
      \<and> eq_filter (bridge_size norm') (bridge_size r)
      \<and> eq_filter (temple_length norm') (temple_length r)
      \<and> text_filter (color norm') (color r)
      \<and> text_filter (shape norm') (shape r)
      \<and> text_filter (gender norm') (gender r)
      \<and> eq_filter (price norm') (price r)
      \<and> eq_filter (n_stock norm') (Some (stock r))
      \<and> text_filter (notes_f norm') (notes_f r)
      \<and> min_filter min_price (price r)
      \<and> max_filter max_price (price r))"

definition search ::
  "(string \<Rightarrow> string) \<Rightarrow> (string \<Rightarrow> int option) \<Rightarrow> (string \<Rightarrow> rat option) \<Rightarrow>
   (string \<times> string) list \<Rightarrow> store \<Rightarrow> store" where
  "search py_lower py_int py_float data rows =
     (let norm' = normalize_fields py_lower py_int py_float data;
          min_price = (case map_of data ''min_price'' of None \<Rightarrow> None | Some raw \<Rightarrow> py_float raw);
          max_price = (case map_of data ''max_price'' of None \<Rightarrow> None | Some raw \<Rightarrow> py_float raw)
      in newest_first 10 (filter (search_filters norm' min_price max_price) rows))"

subsection \<open>The command line's \<^verbatim>\<open>search\<close>\<close>

text \<open>
  The dictionary \<^verbatim>\<open>filters\<close> that \<^verbatim>\<open>prompt_search\<close> builds has the keys of the six text
  fields, \<^verbatim>\<open>lens_width\<close>, \<^verbatim>\<open>min_price\<close> and \<^verbatim>\<open>max_price\<close>; \<^verbatim>\<open>search_frames\<close> reads
  no other key.
\<close>

record Filters = attrs +
  q_model_code :: "string option"
  q_min_price :: "rat option"
  q_max_price :: "rat option"

definition search_frames :: "Filters \<Rightarrow> store \<Rightarrow> store" where
  "search_frames filters rows =
     newest_first 100
       (filter (\<lambda>r. text_filter (brand filters) (brand r)
                    \<and> text_filter (q_model_code filters) (Some (model_code r))
                    \<and> text_filter (material filters) (material r)
                    \<and> text_filter (color filters) (color r)
                    \<and> text_filter (shape filters) (shape r)
                    \<and> text_filter (gender filters) (gender r)
                    \<and> eq_filter (lens_width filters) (lens_width r)
                    \<and> min_filter (q_min_price filters) (price r)
                    \<and> max_filter (q_max_price filters) (price r)) rows)"

section \<open>CSV export\<close>

text \<open>
  \<^verbatim>\<open>esc\<close> inside \<^verbatim>\<open>export_cmd\<close>. Python's \<^verbatim>\<open>str\<close> is the parameter \<open>str\<close>; on a text it is
  the identity. \<open>None\<close> is Python's \<^verbatim>\<open>None\<close>.
\<close>

definition comma :: char where "comma = CHR '',''"
definition dquote :: char where "dquote = CHR 0x22"
definition newline :: char where "newline = CHR 0x0A"

definition double_quotes :: "string \<Rightarrow> string" where
  "double_quotes s = concat (map (\<lambda>c. if c = dquote then [dquote, dquote] else [c]) s)"

definition esc :: "('v \<Rightarrow> string) \<Rightarrow> 'v option \<Rightarrow> string" where
  "esc str v =
     (case v of
        None \<Rightarrow> []
      | Some x \<Rightarrow>
          (let s = str x
           in if list_ex (\<lambda>ch. ch \<in> set s) [comma, dquote, newline]
              then [dquote] @ double_quotes s @ [dquote]
              else s))"

text \<open>A field is wrapped in double quotes when it starts and ends with one, being two long at least.\<close>

definition wrapped :: "string \<Rightarrow> bool" where
  "wrapped t = (2 \<le> length t \<and> hd t = dquote \<and> last t = dquote)"

text \<open>
  Reading one field the way a standard CSV reader does: a field that opens with a double
  quote runs to the closing one, two double quotes inside standing for one; any other field
  runs to the next comma or line end. The result is the field and the unread rest;
  \<open>None\<close> when the closing quote is missing. The reader is not part of the repository.
\<close>

fun read_quoted :: "string \<Rightarrow> (string \<times> string) option" where
  "read_quoted [] = None"
| "read_quoted [c] = (if c = dquote then Some ([], []) else None)"
| "read_quoted (c # d # cs) =
     (if c = dquote
      then (if d = dquote
            then (case read_quoted cs of None \<Rightarrow> None | Some (field, rest) \<Rightarrow> Some (dquote # field, rest))
            else Some ([], d # cs))
      else (case read_quoted (d # cs) of None \<Rightarrow> None | Some (field, rest) \<Rightarrow> Some (c # field, rest)))"

definition line_end :: "char \<Rightarrow> bool" where
  "line_end c = (c = newline \<or> c = CHR 0x0D)"

definition csv_read_field :: "string \<Rightarrow> (string \<times> string) option" where
  "csv_read_field s =
     (case s of
        [] \<Rightarrow> Some ([], [])
      | c # cs \<Rightarrow>
          if c = dquote then read_quoted cs
          else Some (takeWhile (\<lambda>x. x \<noteq> comma \<and> \<not> line_end x) s,
                     dropWhile (\<lambda>x. x \<noteq> comma \<and> \<not> line_end x) s))"

section \<open>Statistics\<close>

text \<open>
  The aggregates of \<^verbatim>\<open>stats_cmd\<close>: \<^verbatim>\<open>func.avg\<close> and \<^verbatim>\<open>func.sum\<close> skip nulls and are null
  over nothing. Python's \<^verbatim>\<open>/\<close> raises on a zero divisor. The format \<^verbatim>\<open>:.2f\<close> is the
  parameter \<open>fmt\<close>. The two "top brand" lines of the reply do no arithmetic beyond counting and
  are left out.
\<close>

definition sql_avg :: "rat option list \<Rightarrow> rat option" where
  "sql_avg col =
     (let xs = concat (map (\<lambda>x. case x of None \<Rightarrow> [] | Some p \<Rightarrow> [p]) col)
      in if xs = [] then None else Some (sum_list xs / of_nat (length xs)))"

definition sql_sum :: "int list \<Rightarrow> int option" where
  "sql_sum col = (if col = [] then None else Some (sum_list col))"

definition count_distinct :: "string option list \<Rightarrow> int" where
  "count_distinct col =
     int (length (remdups (concat (map (\<lambda>x. case x of None \<Rightarrow> [] | Some b \<Rightarrow> [b]) col))))"

definition truediv :: "int \<Rightarrow> int \<Rightarrow> error + rat" where
  "truediv a b = (if b = 0 then Inl ZeroDivisionError else Inr (of_int a / of_int b))"

record Stats =
  total :: int
  distinct_brands :: int
  total_stock :: int
  avg_stock_per_frame :: string
  avg_price_txt :: string

definition stats_cmd :: "(rat \<Rightarrow> string) \<Rightarrow> store \<Rightarrow> error + Stats" where
  "stats_cmd fmt rows =
     (let total = int_or (int (length rows)) 0;
          distinct_brands = int_or (count_distinct (map brand rows)) 0;
          avg_price = sql_avg (map price rows);
          avg_price_txt = (case avg_price of
                             None \<Rightarrow> ''-''
                           | Some a \<Rightarrow> if a \<noteq> 0 then fmt a else ''-'');
          total_stock = opt_int_or (sql_sum (map stock rows)) 0
      in case (if total \<noteq> 0
               then (case truediv total_stock total of
                       Inl e \<Rightarrow> Inl e
                     | Inr q \<Rightarrow> Inr (fmt q))
               else Inr ''-'') of
           Inl e \<Rightarrow> Inl e
         | Inr avg_stock \<Rightarrow>
             Inr \<lparr>total = total, distinct_brands = distinct_brands, total_stock = total_stock,
                  avg_stock_per_frame = avg_stock, avg_price_txt = avg_price_txt\<rparr>)"

section \<open>Sample rows and candidates\<close>

definition example_frame :: "int \<Rightarrow> string option \<Rightarrow> string \<Rightarrow> int \<Rightarrow> Frame" where
  "example_frame i b m s =
     \<lparr>brand = b, material = Some ''unknown'', lens_width = None, bridge_size = None,
      temple_length = None, color = None, shape = None, gender = None, price = None,
      notes_f = None, id_f = i, model_code = m, stock = s, created_at = 0\<rparr>"

text \<open>The brand "\<^verbatim>\<open>Etoile\<close>" written with the capital E acute, \<^verbatim>\<open>U+00C9\<close>.\<close>

definition etoile :: string where
  "etoile = CHR 0xC9 # ''toile''"

definition example_norm :: "string option \<Rightarrow> string \<Rightarrow> int option \<Rightarrow> Norm" where
  "example_norm b m s = empty_dict\<lparr>brand := b, n_model_code := Some m, n_stock := s\<rparr>"

definition example_filters :: "string \<Rightarrow> Filters" where
  "example_filters m =
     \<lparr>brand = None, material = Some m, lens_width = None, bridge_size = None,
      temple_length = None, color = None, shape = None, gender = None, price = None,
      notes_f = None, q_model_code = None, q_min_price = None, q_max_price = None\<rparr>"

text \<open>The note \<^verbatim>\<open>He said "hi", then left\<close> and its expected CSV rendering.\<close>

definition said_hi :: string where
  "said_hi = ''He said '' @ [dquote] @ ''hi'' @ [dquote] @ '', then left''"

definition said_hi_csv :: string where
  "said_hi_csv =
     [dquote] @ ''He said '' @ [dquote, dquote] @ ''hi'' @ [dquote, dquote] @ '', then left''
     @ [dquote]"

section \<open>Properties\<close>

subsection \<open>The fill loop\<close>

lemma fill_field_id_f: "id_f (fill_field ok src f (tgt::Frame)) = id_f tgt"
  by (cases f) simp_all
lemma fill_field_model_code: "model_code (fill_field ok src f (tgt::Frame)) = model_code tgt"
  by (cases f) simp_all
lemma fill_field_stock: "stock (fill_field ok src f (tgt::Frame)) = stock tgt"
  by (cases f) simp_all
lemma fill_field_created_at: "created_at (fill_field ok src f (tgt::Frame)) = created_at tgt"
  by (cases f) simp_all

lemma fill_fields_id_f: "id_f (fill_fields ok src fs (tgt::Frame)) = id_f tgt"
  unfolding fill_fields_def by (induction fs arbitrary: tgt) (simp_all add: fill_field_id_f)
lemma fill_fields_model_code: "model_code (fill_fields ok src fs (tgt::Frame)) = model_code tgt"
  unfolding fill_fields_def by (induction fs arbitrary: tgt) (simp_all add: fill_field_model_code)
lemma fill_fields_stock: "stock (fill_fields ok src fs (tgt::Frame)) = stock tgt"
  unfolding fill_fields_def by (induction fs arbitrary: tgt) (simp_all add: fill_field_stock)
lemma fill_fields_created_at: "created_at (fill_fields ok src fs (tgt::Frame)) = created_at tgt"
  unfolding fill_fields_def by (induction fs arbitrary: tgt) (simp_all add: fill_field_created_at)

lemma getattr_fill_field_same:
  "getattr (fill_field ok src f tgt) f =
     (if in_none_blank_zero (getattr tgt f) \<and> ok (getattr src f) then getattr src f
      else getattr tgt f)"
  by (cases f) simp_all

lemma getattr_fill_field_other:
  "g \<noteq> f \<Longrightarrow> getattr (fill_field ok src f tgt) g = getattr tgt g"
  by (cases f; cases g) simp_all

lemma getattr_fill_fields:
  "distinct fs \<Longrightarrow>
   getattr (fill_fields ok src fs tgt) g =
     (if g \<in> set fs \<and> in_none_blank_zero (getattr tgt g) \<and> ok (getattr src g)
      then getattr src g else getattr tgt g)"
  unfolding fill_fields_def
proof (induction fs arbitrary: tgt)
  case Nil
  then show ?case by simp
next
  case (Cons f fs)
  show ?case
  proof (cases "g = f")
    case True
    with Cons show ?thesis by (simp add: getattr_fill_field_same)
  next
    case False
    with Cons show ?thesis by (simp add: getattr_fill_field_other)
  qed
qed

lemma getattr_stock_update [simp]: "getattr (r\<lparr>stock := s\<rparr>) f = getattr (r::Frame) f"
  by (cases f) simp_all

subsection \<open>The table\<close>

lemma int_or_zero [simp]: "int_or x 0 = x"
  by (simp add: int_or_def)

lemma session_get_SomeD: "session_get rows i = Some r \<Longrightarrow> r \<in> set rows \<and> id_f r = i"
  unfolding session_get_def by (induction rows) (auto split: if_splits)

lemma session_get_update_same:
  "session_get rows (id_f obj) = Some r \<Longrightarrow>
   session_get (session_update obj rows) (id_f obj) = Some obj"
  unfolding session_get_def session_update_def by (induction rows) (auto split: if_splits)

lemma session_get_update_other:
  "i \<noteq> id_f obj \<Longrightarrow> session_get (session_update obj rows) i = session_get rows i"
  unfolding session_get_def session_update_def by (induction rows) auto

lemma session_get_delete_same: "session_get (session_delete obj rows) (id_f obj) = None"
  unfolding session_get_def session_delete_def by (induction rows) auto

lemma session_get_delete_other:
  "i \<noteq> id_f obj \<Longrightarrow> session_get (session_delete obj rows) i = session_get rows i"
  unfolding session_get_def session_delete_def by (induction rows) auto

lemma ids_session_update: "map id_f (session_update obj rows) = map id_f rows"
  unfolding session_update_def by (induction rows) auto

lemma ids_session_delete:
  "map id_f (session_delete obj rows) = removeAll (id_f obj) (map id_f rows)"
  unfolding session_delete_def by (induction rows) auto

lemma merged_target_id [simp]: "id_f (merged_target src tgt) = id_f tgt"
  by (simp add: merged_target_def fill_fields_id_f)

lemma merged_target_stock [simp]: "stock (merged_target src tgt) = stock tgt + stock src"
  by (simp add: merged_target_def fill_fields_stock)

lemma merge_cmd_found:
  assumes "sid \<noteq> tid" "session_get rows sid = Some src" "session_get rows tid = Some tgt"
  shows "merge_cmd indexed sid tid rows =
           commit (update_rejected indexed tgt (merged_target src tgt) rows)
             (stock tgt + stock src) rows
             (session_delete src (session_update (merged_target src tgt) rows))"
  using assms by (simp add: merge_cmd_def Let_def)

lemma next_id_fresh: "r \<in> set rows \<Longrightarrow> id_f r < next_id rows"
proof (cases rows)
  case Nil
  then show "r \<in> set rows \<Longrightarrow> ?thesis" by simp
next
  case (Cons a as)
  assume "r \<in> set rows"
  then have "id_f r \<in> set (map id_f (a # as))" using Cons by auto
  then have "id_f r \<le> Max (set (map id_f (a # as)))" by (intro Max_ge) auto
  also have "\<dots> = fold max (map id_f as) (id_f a)"
    using Max.set_eq_fold [of "id_f a" "map id_f as"] by simp
  finally show ?thesis using Cons by (simp add: next_id_def)
qed

lemma session_get_fresh: "session_get rows (next_id rows) = None"
  unfolding session_get_def using next_id_fresh [of _ rows] by (fastforce simp: find_None_iff)

lemma session_get_append_fresh:
  "session_get rows i = None \<Longrightarrow> id_f r = i \<Longrightarrow> session_get (rows @ [r]) i = Some r"
  unfolding session_get_def by (induction rows) (auto split: if_splits)

lemma query_existing_append:
  "query_existing rows b m = None \<Longrightarrow>
   query_existing (rows @ [r]) b m = (if same_item b m r then Some r else None)"
  unfolding query_existing_def by (induction rows) (auto split: if_splits)

lemma same_item_key: "same_item b m r \<longleftrightarrow> frame_key r = (b, m)"
  by (auto simp: same_item_def frame_key_def)

lemma query_existing_None_key:
  "query_existing rows b m = None \<longleftrightarrow> \<not> list_ex (\<lambda>r. frame_key r = (b, m)) rows"
  by (auto simp: query_existing_def find_None_iff list_ex_iff same_item_key)

lemma coalesce_sql_lower_brand:
  "coalesce (map_option sql_lower b) [] = sql_lower (str_or b [])"
  by (cases b) (simp_all add: coalesce_def str_or_def sql_lower_def)

lemma add_existing_id [simp]: "id_f (add_existing c e) = id_f e"
  by (simp add: add_existing_def Let_def fill_fields_id_f)

lemma add_existing_stock:
  "stock (add_existing c e) =
     stock e + (case n_stock c of None \<Rightarrow> 1 | Some s \<Rightarrow> if s = 0 then 1 else s)"
  by (simp add: add_existing_def Let_def fill_fields_stock int_or_def split: option.splits)

lemma add_existing_model_code [simp]: "model_code (add_existing c e) = model_code e"
  by (simp add: add_existing_def Let_def fill_fields_model_code)

lemma query_existing_SomeD:
  "query_existing rows b m = Some e \<Longrightarrow> e \<in> set rows \<and> same_item b m e"
  unfolding query_existing_def by (induction rows) (auto split: if_splits)

lemma session_get_member: "e \<in> set rows \<Longrightarrow> \<exists>r. session_get rows (id_f e) = Some r"
  unfolding session_get_def by (induction rows) auto

lemma new_confirm_existing_id [simp]: "id_f (new_confirm_existing c e) = id_f e"
  by (simp add: new_confirm_existing_def Let_def fill_fields_id_f)

lemma new_confirm_existing_model_code [simp]:
  "model_code (new_confirm_existing c e) = model_code e"
  by (simp add: new_confirm_existing_def Let_def fill_fields_model_code)

lemma distinct_updatable_fields: "distinct updatable_fields"
  by (simp add: updatable_fields_def)

lemma distinct_merge_fields: "distinct merge_fields"
  by (simp add: merge_fields_def)

lemma set_merge_fields: "f \<in> set merge_fields"
  by (cases f) (simp_all add: merge_fields_def)

lemma getattr_add_existing:
  "getattr (add_existing c e) f =
     (if f \<in> set updatable_fields \<and> in_none_blank_zero (getattr e f)
         \<and> getattr c f \<noteq> PNone \<and> \<not> in_none_blank (getattr c f)
      then getattr c f else getattr e f)"
  by (simp add: add_existing_def Let_def getattr_fill_fields [OF distinct_updatable_fields])

lemma getattr_new_confirm_existing:
  "getattr (new_confirm_existing c e) f =
     (if f \<in> set updatable_fields \<and> in_none_blank_zero (getattr e f) \<and> getattr c f \<noteq> PNone
      then getattr c f else getattr e f)"
  by (simp add: new_confirm_existing_def Let_def getattr_fill_fields [OF distinct_updatable_fields])

lemma getattr_merged_target:
  "getattr (merged_target src tgt) f =
     (if in_none_blank_zero (getattr tgt f) \<and> \<not> in_none_blank (getattr src f)
      then getattr src f else getattr tgt f)"
  by (simp add: merged_target_def Let_def getattr_fill_fields [OF distinct_merge_fields]
        set_merge_fields)

lemma opt_val_PStr_inj: "opt_val PStr a = opt_val PStr b \<Longrightarrow> a = b"
  by (cases a; cases b) (simp_all add: opt_val_def)

lemma brand_add_existing [simp]: "brand (add_existing c e) = brand e"
  using getattr_add_existing [of c e Brand]
  by (simp add: updatable_fields_def opt_val_PStr_inj)

lemma brand_new_confirm_existing [simp]: "brand (new_confirm_existing c e) = brand e"
  using getattr_new_confirm_existing [of c e Brand]
  by (simp add: updatable_fields_def opt_val_PStr_inj)



lemma frame_key_add_existing [simp]: "frame_key (add_existing c e) = frame_key e"
  by (simp add: frame_key_def)

lemma frame_key_new_confirm_existing [simp]: "frame_key (new_confirm_existing c e) = frame_key e"
  by (simp add: frame_key_def)

lemma update_same_key_accepted [simp]:
  "frame_key obj = frame_key old \<Longrightarrow> \<not> update_rejected indexed old obj rows"
  by (simp add: update_rejected_def)

lemma add_found:
  assumes "n_model_code c = Some mc"
    and "query_existing rows (py_lower (str_or (brand c) [])) (py_lower mc) = Some e"
  shows "add py_lower indexed now c rows =
           (Inr (Updated_existing (id_f e) (stock e) (stock (add_existing c e))),
            session_update (add_existing c e) rows)"
  using assms by (simp add: add_def Let_def commit_def)

lemma new_confirm_found:
  assumes "n_model_code c = Some mc"
    and "query_existing rows (py_lower (str_or (brand c) [])) (py_lower mc) = Some e"
  shows "new_confirm py_lower indexed now c rows =
           (Inr (Updated_existing (id_f e) (stock e) (stock (new_confirm_existing c e))),
            session_update (new_confirm_existing c e) rows)"
  using assms by (simp add: new_confirm_def Let_def commit_def)


subsection \<open>Evaluating the handlers on the sample rows\<close>

lemmas ev = add_def add_existing_def new_frame_def fill_fields_def updatable_fields_def
  commit_def insert_rejected_def update_rejected_def frame_key_def session_add_def
  session_update_def session_get_def next_id_def query_existing_def same_item_def coalesce_def
  str_or_def int_or_def opt_val_def example_frame_def example_norm_def empty_dict_def
  str_lower_def str_lower_char_def sql_lower_def sql_lower_char_def latin1_capitals_def
  latin1_smalls_def etoile_def init_db_def Let_def

lemmas ev_merge = merge_cmd_def merged_target_def merge_fields_def session_delete_def

subsection \<open>Upsert\<close>

text \<open>
  Two candidates with the same Matching Key under Python's lower-casing go through
  \<^verbatim>\<open>/add\<close> one after the other, the table holding no record with that key at first. When
  the store lower-cases the first candidate's brand and model code as Python does, the first
  call creates the record with the candidate's stock, or 1 when it supplies none, and the
  second call merges into that record, adding its own stock, or 1 when that is absent or
  zero. This holds with and without the unique index.
\<close>

lemma add_twice_merges:
  assumes m1: "n_model_code c1 = Some m1" and m2: "n_model_code c2 = Some m2"
    and same_model: "py_lower m1 = py_lower m2"
    and same_brand: "py_lower (str_or (brand c1) []) = py_lower (str_or (brand c2) [])"
    and agree_model: "sql_lower m1 = py_lower m1"
    and agree_brand: "sql_lower (str_or (brand c1) []) = py_lower (str_or (brand c1) [])"
    and key_free: "query_existing rows (py_lower (str_or (brand c1) [])) (py_lower m1) = None"
  shows "\<exists>s1 s2 total.
           add py_lower indexed t1 c1 rows =
             (Inr (Added (next_id rows) (case n_stock c1 of None \<Rightarrow> 1 | Some s \<Rightarrow> s)), s1)
         \<and> add py_lower indexed t2 c2 s1 =
             (Inr (Updated_existing (next_id rows)
                     (case n_stock c1 of None \<Rightarrow> 1 | Some s \<Rightarrow> s) total), s2)
         \<and> total = (case n_stock c1 of None \<Rightarrow> 1 | Some s \<Rightarrow> s)
                   + (case n_stock c2 of None \<Rightarrow> 1 | Some s \<Rightarrow> if s = 0 then 1 else s)
         \<and> map_option stock (session_get s2 (next_id rows)) = Some total
         \<and> length s2 = length rows + 1"
proof -
  let ?st1 = "case n_stock c1 of None \<Rightarrow> 1 | Some s \<Rightarrow> s"
  let ?st2 = "case n_stock c2 of None \<Rightarrow> 1 | Some s \<Rightarrow> if s = 0 then 1 else s"
  let ?frame = "(new_frame c1 m1)\<lparr>created_at := t1\<rparr>"
  let ?frame' = "if n_stock c1 = None then ?frame\<lparr>stock := 1\<rparr> else ?frame"
  let ?s1 = "session_add ?frame' rows"
  obtain row where s1: "?s1 = rows @ [row]" and row_id: "id_f row = next_id rows"
    and row_stock: "stock row = ?st1" and row_model: "model_code row = m1"
    and row_brand: "brand row = brand c1"
    by (cases "n_stock c1") (simp_all add: session_add_def new_frame_def)
  have "frame_key ?frame' = (py_lower (str_or (brand c1) []), py_lower m1)"
    using agree_model agree_brand
    by (simp add: frame_key_def new_frame_def coalesce_sql_lower_brand)
  then have accepted: "\<not> insert_rejected indexed ?frame' rows"
    using key_free by (simp add: insert_rejected_def query_existing_None_key)
  have first: "add py_lower indexed t1 c1 rows = (Inr (Added (next_id rows) ?st1), ?s1)"
    using m1 key_free accepted
    by (cases "n_stock c1") (simp_all add: add_def Let_def commit_def new_frame_def)
  have "same_item (py_lower (str_or (brand c2) [])) (py_lower m2) row"
    using same_model same_brand agree_model agree_brand
    by (simp add: same_item_def row_model row_brand coalesce_sql_lower_brand)
  then have found: "query_existing ?s1 (py_lower (str_or (brand c2) [])) (py_lower m2) = Some row"
    using query_existing_append [of rows _ _ row] key_free same_model same_brand s1 by simp
  let ?e = "add_existing c2 row"
  let ?s2 = "session_update ?e ?s1"
  have second:
    "add py_lower indexed t2 c2 ?s1 =
       (Inr (Updated_existing (next_id rows) ?st1 (?st1 + ?st2)), ?s2)"
    using add_found [OF m2 found] by (simp add: row_id row_stock add_existing_stock)
  have "session_get ?s1 (next_id rows) = Some row"
    using session_get_append_fresh [OF session_get_fresh row_id] s1 by simp
  then have "session_get ?s2 (next_id rows) = Some ?e"
    using session_get_update_same [of ?s1 ?e row] by (simp add: row_id)
  then have stored: "map_option stock (session_get ?s2 (next_id rows)) = Some (?st1 + ?st2)"
    by (simp add: add_existing_stock row_stock)
  have len: "length ?s2 = length rows + 1"
    by (simp add: session_update_def s1)
  show ?thesis
    using first second stored len by blast
qed

text \<open>
  C1. The claim asks as much of every pair of candidates with the same normalised Matching
  Key: the second call merges and the stock is the sum. \<^verbatim>\<open>add\<close> lower-cases the
  candidate's key with Python and compares it with the stored key lower-cased by the store,
  and the store leaves the capital E acute of the brand "\<^verbatim>\<open>Etoile\<close>" as it is while Python
  lowers it. The same candidate, that brand with model "X1", is submitted twice to an empty
  table. The second call does not find the record of the first: on a table without the
  unique index it creates a second record and answers "Added" with id 2; on the table with
  the index, as the bot sets it up, its insert is rejected and the handler ends in
  \<^verbatim>\<open>IntegrityError\<close>. In neither case is there a merge, and the stock on file stays 1.
\<close>

theorem add_twice_accented_brand:
  "str_lower etoile = CHR 0xE9 # ''toile''
   \<and> sql_lower etoile = etoile
   \<and> add str_lower False 1 (example_norm (Some etoile) ''X1'' None) []
       = (Inr (Added 1 1), [(example_frame 1 (Some etoile) ''X1'' 1)\<lparr>created_at := 1\<rparr>])
   \<and> add str_lower False 2 (example_norm (Some etoile) ''X1'' None)
         [(example_frame 1 (Some etoile) ''X1'' 1)\<lparr>created_at := 1\<rparr>]
       = (Inr (Added 2 1),
          [(example_frame 1 (Some etoile) ''X1'' 1)\<lparr>created_at := 1\<rparr>,
           (example_frame 2 (Some etoile) ''X1'' 1)\<lparr>created_at := 2\<rparr>])
   \<and> init_db False [] = True
   \<and> add str_lower True 1 (example_norm (Some etoile) ''X1'' None) []
       = (Inr (Added 1 1), [(example_frame 1 (Some etoile) ''X1'' 1)\<lparr>created_at := 1\<rparr>])
   \<and> add str_lower True 2 (example_norm (Some etoile) ''X1'' None)
         [(example_frame 1 (Some etoile) ''X1'' 1)\<lparr>created_at := 1\<rparr>]
       = (Inl IntegrityError, [(example_frame 1 (Some etoile) ''X1'' 1)\<lparr>created_at := 1\<rparr>])"
  by (simp add: ev)

text \<open>
  C2, as the specification states it, requires the candidate's value to be non-empty in the
  sense "not absent, not blank, not numeric zero" before it is copied. The test on the
  candidate in \<^verbatim>\<open>add\<close> is \<^verbatim>\<open>norm[f] not in (None, "")\<close>: a lens width of 0 is copied into
  a record whose lens width is unset.
\<close>

theorem upsert_copies_zero_counterexample:
  "lens_width (example_frame 1 (Some ''Ray'') ''RB1'' 3) = None
   \<and> lens_width ((example_norm (Some ''ray'') ''rb1'' None)\<lparr>lens_width := Some 0\<rparr>) = Some 0
   \<and> in_none_blank_zero (PInt 0)
   \<and> map_option lens_width
       (session_get
          (snd (add str_lower False 9
                  ((example_norm (Some ''ray'') ''rb1'' None)\<lparr>lens_width := Some 0\<rparr>)
                  [example_frame 1 (Some ''Ray'') ''RB1'' 3])) 1)
     = Some (Some 0)"
  by (simp add: ev)

text \<open>
  C2, amended. On the merge path of upsert and for each of the nine fields of
  \<^verbatim>\<open>updatable_fields\<close>: a field whose existing value is not empty (\<^verbatim>\<open>None\<close>, the empty
  text and a numeric zero being empty) keeps it, through \<^verbatim>\<open>/add\<close> and through the guided
  \<^verbatim>\<open>/new\<close>. Through \<^verbatim>\<open>/add\<close> the field takes the candidate's value exactly when the
  existing value is empty and the candidate has the key with a value other than \<^verbatim>\<open>None\<close>
  and the empty text; a numeric zero of the candidate is such a value. Through \<^verbatim>\<open>/new\<close>
  a field changes only to a value that the candidate supplies, and an empty field takes the
  candidate's value when that is neither \<^verbatim>\<open>None\<close> nor the empty text.
\<close>

theorem upsert_fill_policy:
  assumes model: "n_model_code c = Some mc"
    and found: "query_existing rows (py_lower (str_or (brand c) [])) (py_lower mc) = Some e"
    and f: "f \<in> set updatable_fields"
  shows "\<exists>e1 e2.
           session_get (snd (add py_lower indexed now c rows)) (id_f e) = Some e1
         \<and> getattr e1 f =
             (if in_none_blank_zero (getattr e f) \<and> getattr c f \<noteq> PNone
                 \<and> \<not> in_none_blank (getattr c f)
              then getattr c f else getattr e f)
         \<and> session_get (snd (new_confirm py_lower indexed now c rows)) (id_f e) = Some e2
         \<and> (\<not> in_none_blank_zero (getattr e f) \<longrightarrow>
              getattr e1 f = getattr e f \<and> getattr e2 f = getattr e f)
         \<and> (getattr e2 f \<noteq> getattr e f \<longrightarrow>
              getattr c f \<noteq> PNone \<and> getattr e2 f = getattr c f)
         \<and> (in_none_blank_zero (getattr e f) \<and> getattr c f \<noteq> PNone
              \<and> \<not> in_none_blank (getattr c f) \<longrightarrow>
              getattr e2 f = getattr c f)"
proof -
  let ?e1 = "add_existing c e" and ?e2 = "new_confirm_existing c e"
  obtain r where r: "session_get rows (id_f e) = Some r"
    using query_existing_SomeD [OF found] session_get_member by blast
  have "session_get (session_update ?e1 rows) (id_f ?e1) = Some ?e1"
    by (rule session_get_update_same [of rows ?e1 r]) (simp add: r)
  then have g1: "session_get (snd (add py_lower indexed now c rows)) (id_f e) = Some ?e1"
    by (simp add: add_found [OF model found])
  have "session_get (session_update ?e2 rows) (id_f ?e2) = Some ?e2"
    by (rule session_get_update_same [of rows ?e2 r]) (simp add: r)
  then have g2: "session_get (snd (new_confirm py_lower indexed now c rows)) (id_f e) = Some ?e2"
    by (simp add: new_confirm_found [OF model found])
  have a1: "getattr ?e1 f =
             (if in_none_blank_zero (getattr e f) \<and> getattr c f \<noteq> PNone
                 \<and> \<not> in_none_blank (getattr c f)
              then getattr c f else getattr e f)"
    using f by (simp add: getattr_add_existing)
  have a2: "getattr ?e2 f =
             (if in_none_blank_zero (getattr e f) \<and> getattr c f \<noteq> PNone
              then getattr c f else getattr e f)"
    using f by (simp add: getattr_new_confirm_existing)
  have keep: "\<not> in_none_blank_zero (getattr e f) \<longrightarrow>
                getattr ?e1 f = getattr e f \<and> getattr ?e2 f = getattr e f"
    using a1 a2 by simp
  have change: "getattr ?e2 f \<noteq> getattr e f \<longrightarrow>
                  getattr c f \<noteq> PNone \<and> getattr ?e2 f = getattr c f"
    using a2 by (simp split: if_splits)
  have fill: "in_none_blank_zero (getattr e f) \<and> getattr c f \<noteq> PNone
                \<and> \<not> in_none_blank (getattr c f) \<longrightarrow> getattr ?e2 f = getattr c f"
    using a2 by simp
  show ?thesis
    using g1 g2 a1 keep change fill by blast
qed

theorem upsert_fill_policy_witness:
  "\<exists>e1. session_get
           (snd (add str_lower True 9
                   ((example_norm (Some ''ray'') ''rb1'' None)\<lparr>color := Some ''black''\<rparr>)
                   [example_frame 1 (Some ''Ray'') ''RB1'' 3])) 1 = Some e1
        \<and> getattr e1 Color = PStr ''black'' \<and> getattr e1 Material = PStr ''unknown''"
proof -
  let ?c = "(example_norm (Some ''ray'') ''rb1'' None)\<lparr>color := Some ''black''\<rparr>"
  let ?e = "example_frame 1 (Some ''Ray'') ''RB1'' 3"
  have model: "n_model_code ?c = Some ''rb1''"
    by (simp add: example_norm_def empty_dict_def)
  have found: "query_existing [?e] (str_lower (str_or (brand ?c) [])) (str_lower ''rb1'') = Some ?e"
    by (simp add: ev)
  have color: "Color \<in> set updatable_fields" and material: "Material \<in> set updatable_fields"
    by (simp_all add: updatable_fields_def)
  have vals: "getattr ?e Color = PNone" "getattr ?c Color = PStr ''black''"
    "getattr ?e Material = PStr ''unknown''" "id_f ?e = 1"
    by (simp_all add: example_norm_def empty_dict_def example_frame_def opt_val_def)
  show ?thesis
    using upsert_fill_policy [OF model found color, of True 9]
      upsert_fill_policy [OF model found material, of True 9]
    unfolding vals by auto
qed




subsection \<open>Merging two records\<close>

text \<open>
  For two records on file with different ids, when the index does not reject the update of
  the target, \<^verbatim>\<open>/merge\<close> answers with the sum of the two stocks; afterwards the target
  resolves under its own id with that stock, the source no longer resolves, every other id
  resolves as before, and the ids of the table are the old ones without the source's.
\<close>

lemma merge_cmd_accepted:
  assumes "sid \<noteq> tid" "session_get rows sid = Some src" "session_get rows tid = Some tgt"
    and "\<not> update_rejected indexed tgt (merged_target src tgt) rows"
  shows "\<exists>rows' tgt'.
           merge_cmd indexed sid tid rows = (Inr (stock tgt + stock src), rows')
         \<and> session_get rows' tid = Some tgt'
         \<and> id_f tgt' = tid
         \<and> stock tgt' = stock tgt + stock src
         \<and> session_get rows' sid = None
         \<and> (\<forall>i. i \<noteq> sid \<and> i \<noteq> tid \<longrightarrow> session_get rows' i = session_get rows i)
         \<and> map id_f rows' = removeAll sid (map id_f rows)"
proof -
  let ?t = "merged_target src tgt"
  let ?rows' = "session_delete src (session_update ?t rows)"
  have src: "id_f src = sid" and tgt: "id_f tgt = tid"
    using assms session_get_SomeD by blast+
  have idt: "id_f ?t = tid"
    by (simp add: tgt)
  have run: "merge_cmd indexed sid tid rows = (Inr (stock tgt + stock src), ?rows')"
    using merge_cmd_found [OF assms(1-3)] assms(4) by (simp add: commit_def)
  have "session_get (session_update ?t rows) tid = Some ?t"
    using session_get_update_same [of rows ?t tgt] assms(3) idt by simp
  then have get_t: "session_get ?rows' tid = Some ?t"
    using session_get_delete_other [of tid src] assms(1) src by simp
  have get_s: "session_get ?rows' sid = None"
    using session_get_delete_same [of src] src by simp
  have others: "\<forall>i. i \<noteq> sid \<and> i \<noteq> tid \<longrightarrow> session_get ?rows' i = session_get rows i"
    using session_get_delete_other [of _ src] session_get_update_other [of _ ?t] src idt
    by simp
  have ids: "map id_f ?rows' = removeAll sid (map id_f rows)"
    by (simp add: ids_session_delete ids_session_update src)
  show ?thesis
    using run get_t idt get_s others ids by (intro exI [of _ ?rows'] exI [of _ ?t]) simp
qed

text \<open>
  C3. The claim asks that of every pair of records with different ids. The bot sets up an
  empty table with the unique index, and two \<^verbatim>\<open>/add\<close> calls, "Ray"/"RB1" with stock 3 and
  a frame without brand, "rb1", with stock 4, give the records 1 and 2. \<^verbatim>\<open>/merge 1 2\<close>
  fills the target's brand with "Ray". The commit updates the target while the source still
  holds the key ("ray", "rb1"): the index rejects the update, the handler ends in
  \<^verbatim>\<open>IntegrityError\<close>, and both records stay as they were, neither effect being written.
  On the same two records without the index the call leaves record 2 alone with stock 7.
\<close>

theorem merge_rejected_by_unique_index:
  "init_db False [] = True
   \<and> add str_lower True 1 (example_norm (Some ''Ray'') ''RB1'' (Some 3)) []
       = (Inr (Added 1 3), [(example_frame 1 (Some ''Ray'') ''RB1'' 3)\<lparr>created_at := 1\<rparr>])
   \<and> add str_lower True 2 (example_norm None ''rb1'' (Some 4))
         [(example_frame 1 (Some ''Ray'') ''RB1'' 3)\<lparr>created_at := 1\<rparr>]
       = (Inr (Added 2 4),
          [(example_frame 1 (Some ''Ray'') ''RB1'' 3)\<lparr>created_at := 1\<rparr>,
           (example_frame 2 None ''rb1'' 4)\<lparr>created_at := 2\<rparr>])
   \<and> merge_cmd True 1 2
         [(example_frame 1 (Some ''Ray'') ''RB1'' 3)\<lparr>created_at := 1\<rparr>,
          (example_frame 2 None ''rb1'' 4)\<lparr>created_at := 2\<rparr>]
       = (Inl IntegrityError,
          [(example_frame 1 (Some ''Ray'') ''RB1'' 3)\<lparr>created_at := 1\<rparr>,
           (example_frame 2 None ''rb1'' 4)\<lparr>created_at := 2\<rparr>])
   \<and> merge_cmd False 1 2
         [(example_frame 1 (Some ''Ray'') ''RB1'' 3)\<lparr>created_at := 1\<rparr>,
          (example_frame 2 None ''rb1'' 4)\<lparr>created_at := 2\<rparr>]
       = (Inr 7, [(example_frame 2 (Some ''Ray'') ''rb1'' 7)\<lparr>created_at := 2\<rparr>])"
  by (simp add: ev ev_merge)

text \<open>
  C6, as the specification states it, leaves the target's brand alone. The list of fields in
  \<^verbatim>\<open>merge_cmd\<close> ends with \<^verbatim>\<open>"brand"\<close>: a target without a brand takes the source's.
\<close>

theorem merge_fills_brand_counterexample:
  "brand (example_frame 2 None ''rb1'' 4) = None
   \<and> map_option brand
       (session_get (snd (merge_cmd False 1 2 [example_frame 1 (Some ''Ray'') ''RB1'' 3,
                                              example_frame 2 None ''rb1'' 4])) 2)
     = Some (Some ''Ray'')"
  by (simp add: ev ev_merge)

text \<open>
  C6, amended. \<^verbatim>\<open>/merge\<close> fills the nine fields of upsert and the brand: each of the ten
  takes the source's value exactly when the target's value is empty and the source's is
  neither \<^verbatim>\<open>None\<close> nor the empty text, and keeps the target's value otherwise. The
  target's id, model code and creation time are unchanged. On a table with the unique index,
  where the update may be rejected, a field still changes only in that case and only to the
  source's value, and id, model code and creation time are unchanged as well.
\<close>

theorem merge_cmd_fill_frame:
  assumes "sid \<noteq> tid" "session_get rows sid = Some src" "session_get rows tid = Some tgt"
  shows "(\<exists>tgt'.
            session_get (snd (merge_cmd False sid tid rows)) tid = Some tgt'
          \<and> id_f tgt' = id_f tgt \<and> model_code tgt' = model_code tgt
          \<and> created_at tgt' = created_at tgt
          \<and> (\<forall>f. getattr tgt' f =
                   (if in_none_blank_zero (getattr tgt f) \<and> \<not> in_none_blank (getattr src f)
                    then getattr src f else getattr tgt f)))
       \<and> (\<exists>tgt'.
            session_get (snd (merge_cmd True sid tid rows)) tid = Some tgt'
          \<and> id_f tgt' = id_f tgt \<and> model_code tgt' = model_code tgt
          \<and> created_at tgt' = created_at tgt
          \<and> (\<forall>f. getattr tgt' f \<noteq> getattr tgt f \<longrightarrow>
                   in_none_blank_zero (getattr tgt f) \<and> \<not> in_none_blank (getattr src f)
                   \<and> getattr tgt' f = getattr src f))"
proof -
  let ?t = "merged_target src tgt"
  have src: "id_f src = sid" and tgt: "id_f tgt = tid"
    using assms session_get_SomeD by blast+
  have "session_get (session_update ?t rows) tid = Some ?t"
    using session_get_update_same [of rows ?t tgt] assms(3) tgt by simp
  then have written: "session_get (session_delete src (session_update ?t rows)) tid = Some ?t"
    using session_get_delete_other [of tid src] assms(1) src by simp
  have frame: "model_code ?t = model_code tgt" "created_at ?t = created_at tgt"
    by (simp_all add: merged_target_def fill_fields_model_code fill_fields_created_at)
  have "session_get (snd (merge_cmd False sid tid rows)) tid = Some ?t"
    using written by (simp add: merge_cmd_found [OF assms] commit_def update_rejected_def)
  then have plain: "\<exists>tgt'.
            session_get (snd (merge_cmd False sid tid rows)) tid = Some tgt'
          \<and> id_f tgt' = id_f tgt \<and> model_code tgt' = model_code tgt
          \<and> created_at tgt' = created_at tgt
          \<and> (\<forall>f. getattr tgt' f =
                   (if in_none_blank_zero (getattr tgt f) \<and> \<not> in_none_blank (getattr src f)
                    then getattr src f else getattr tgt f))"
    using frame getattr_merged_target by (intro exI [of _ ?t]) simp
  have indexed: "\<exists>tgt'.
            session_get (snd (merge_cmd True sid tid rows)) tid = Some tgt'
          \<and> id_f tgt' = id_f tgt \<and> model_code tgt' = model_code tgt
          \<and> created_at tgt' = created_at tgt
          \<and> (\<forall>f. getattr tgt' f \<noteq> getattr tgt f \<longrightarrow>
                   in_none_blank_zero (getattr tgt f) \<and> \<not> in_none_blank (getattr src f)
                   \<and> getattr tgt' f = getattr src f)"
  proof (cases "update_rejected True tgt ?t rows")
    case True
    then have "session_get (snd (merge_cmd True sid tid rows)) tid = Some tgt"
      using assms(3) by (simp add: merge_cmd_found [OF assms] commit_def)
    then show ?thesis by (intro exI [of _ tgt]) simp
  next
    case False
    then have "session_get (snd (merge_cmd True sid tid rows)) tid = Some ?t"
      using written by (simp add: merge_cmd_found [OF assms] commit_def)
    then show ?thesis
      using frame getattr_merged_target by (intro exI [of _ ?t]) simp
  qed
  show ?thesis
    using plain indexed by blast
qed

theorem merge_cmd_fill_frame_witness:
  "\<exists>t. session_get (snd (merge_cmd False 1 2 [example_frame 1 (Some ''Ray'') ''RB1'' 3,
                                             example_frame 2 None ''rb1'' 4])) 2 = Some t
      \<and> model_code t = ''rb1'' \<and> getattr t Brand = PStr ''Ray''
      \<and> getattr t Material = PStr ''unknown''"
proof -
  let ?a = "example_frame 1 (Some ''Ray'') ''RB1'' 3"
  let ?b = "example_frame 2 None ''rb1'' 4"
  have ne: "(1::int) \<noteq> 2" by simp
  have a: "session_get [?a, ?b] 1 = Some ?a" and b: "session_get [?a, ?b] 2 = Some ?b"
    by (simp_all add: session_get_def example_frame_def)
  have vals: "model_code ?b = ''rb1''" "getattr ?b Brand = PNone" "getattr ?a Brand = PStr ''Ray''"
    "getattr ?b Material = PStr ''unknown''" "getattr ?a Material = PStr ''unknown''"
    by (simp_all add: example_frame_def opt_val_def)
  from merge_cmd_fill_frame [OF ne a b] obtain t where
    t: "session_get (snd (merge_cmd False 1 2 [?a, ?b])) 2 = Some t"
      "model_code t = model_code ?b"
      "\<forall>f. getattr t f =
             (if in_none_blank_zero (getattr ?b f) \<and> \<not> in_none_blank (getattr ?a f)
              then getattr ?a f else getattr ?b f)"
    by blast
  have "getattr t Brand = PStr ''Ray''" "getattr t Material = PStr ''unknown''"
    using spec [OF t(3), of Brand] spec [OF t(3), of Material] unfolding vals by simp_all
  then show ?thesis
    using t(1,2) vals(1) by auto
qed

text \<open>
  C4. For every id \<open>a\<close>, \<^verbatim>\<open>/merge a a\<close> is refused with the invalid-argument reply
  "Source and target must differ." and the table is left exactly as it was, with and without
  the unique index.
\<close>

theorem merge_same_id_rejected:
  "merge_cmd indexed a a rows = (Inl (InvalidArgumentError ''Source and target must differ.''), rows)"
  by (simp add: merge_cmd_def)

subsection \<open>Searching\<close>

text \<open>
  C7 holds for \<^verbatim>\<open>search_frames\<close> of the command line and fails for the bot's
  \<^verbatim>\<open>/search\<close>, which sends its criteria through \<^verbatim>\<open>normalize_fields\<close>: a material
  outside \<^verbatim>\<open>MATERIAL_CHOICES\<close> becomes "unknown" before the filter is built. With one frame
  of material "unknown" on file, \<^verbatim>\<open>/search material=glass\<close> returns that frame, although
  "glass" is no substring of its material; the command line's search with the same criterion
  returns nothing.
\<close>

theorem search_coerces_material:
  "material (normalize_fields str_lower py_int py_float [(''material'', ''glass'')]) = Some ''unknown''
   \<and> search str_lower py_int py_float [(''material'', ''glass'')]
         [example_frame 1 (Some ''Ray'') ''RB1'' 3]
       = [example_frame 1 (Some ''Ray'') ''RB1'' 3]
   \<and> \<not> text_filter (Some ''glass'') (material (example_frame 1 (Some ''Ray'') ''RB1'' 3))
   \<and> search_frames (example_filters ''glass'') [example_frame 1 (Some ''Ray'') ''RB1'' 3] = []"
proof -
  have norm_glass:
    "normalize_fields str_lower py_int py_float [(''material'', ''glass'')]
       = empty_dict\<lparr>material := Some ''unknown''\<rparr>"
    by (simp add: normalize_fields_def normalize_item_def FIELD_MAP_def MATERIAL_CHOICES_def
          empty_dict_def str_lower_def str_lower_char_def latin1_capitals_def latin1_smalls_def
          Let_def)
  have hit: "text_filter (Some ''unknown'') (Some ''unknown'')"
    by (simp add: text_filter_def ilike_def sql_lower_def sql_lower_char_def)
  have miss: "\<not> text_filter (Some ''glass'') (Some ''unknown'')"
    by (simp add: text_filter_def ilike_def sql_lower_def sql_lower_char_def)
  have bot: "search str_lower py_int py_float [(''material'', ''glass'')]
               [example_frame 1 (Some ''Ray'') ''RB1'' 3]
             = [example_frame 1 (Some ''Ray'') ''RB1'' 3]"
    using hit
    by (simp add: search_def norm_glass search_filters_def newest_first_def example_frame_def
          empty_dict_def eq_filter_def min_filter_def max_filter_def text_filter_def Let_def)
  have cli: "search_frames (example_filters ''glass'') [example_frame 1 (Some ''Ray'') ''RB1'' 3] = []"
    using miss
    by (simp add: search_frames_def example_filters_def example_frame_def newest_first_def)
  show ?thesis
    using norm_glass bot cli miss by (simp add: example_frame_def)
qed

subsection \<open>CSV export\<close>

lemma esc_Some:
  "esc str (Some v) =
     (if comma \<in> set (str v) \<or> dquote \<in> set (str v) \<or> newline \<in> set (str v)
      then [dquote] @ double_quotes (str v) @ [dquote] else str v)"
  by (simp add: esc_def Let_def)

lemma wrapped_quoted: "wrapped ([dquote] @ body @ [dquote])"
  by (simp add: wrapped_def)

lemma wrapped_has_quote: "wrapped t \<Longrightarrow> dquote \<in> set t"
  by (cases t) (auto simp: wrapped_def)

lemma wrapped_esc:
  "wrapped (esc str (Some v)) \<longleftrightarrow>
     comma \<in> set (str v) \<or> dquote \<in> set (str v) \<or> newline \<in> set (str v)"
  using wrapped_has_quote [of "str v"] wrapped_quoted [of "double_quotes (str v)"]
  by (auto simp: esc_Some)

lemma double_quotes_Cons:
  "double_quotes (c # s) = (if c = dquote then dquote # dquote # double_quotes s
                            else c # double_quotes s)"
  by (simp add: double_quotes_def)

lemma double_quotes_Nil [simp]: "double_quotes [] = []"
  by (simp add: double_quotes_def)

lemma read_quoted_double_quotes:
  "rest = [] \<or> hd rest \<noteq> dquote \<Longrightarrow>
   read_quoted (double_quotes s @ dquote # rest) = Some (s, rest)"
proof (induction s)
  case Nil
  then show ?case by (cases rest) auto
next
  case (Cons c s)
  show ?case
  proof (cases "c = dquote")
    case True
    with Cons show ?thesis by (simp add: double_quotes_Cons)
  next
    case False
    obtain d cs where "double_quotes s @ dquote # rest = d # cs"
      by (cases "double_quotes s @ dquote # rest") auto
    with False Cons show ?thesis by (simp add: double_quotes_Cons)
  qed
qed

lemma read_plain:
  assumes "comma \<notin> set s" "dquote \<notin> set s" "newline \<notin> set s" "CHR 0x0D \<notin> set s"
    and "rest = [] \<or> hd rest = comma \<or> line_end (hd rest)"
  shows "csv_read_field (s @ rest) = Some (s, rest)"
proof -
  let ?P = "\<lambda>x. x \<noteq> comma \<and> \<not> line_end x"
  have all: "\<forall>x\<in>set s. ?P x"
    using assms(1,3,4) by (auto simp: line_end_def)
  have stop: "rest = [] \<or> \<not> ?P (hd rest)"
    using assms(5) by auto
  have tw: "takeWhile ?P (s @ rest) = s"
    using all stop by (cases rest) auto
  have dw: "dropWhile ?P (s @ rest) = rest"
    using all stop by (cases rest) auto
  show ?thesis
  proof (cases "s @ rest")
    case Nil
    then show ?thesis by (simp add: csv_read_field_def)
  next
    case (Cons c cs)
    have "c \<noteq> dquote"
    proof (cases s)
      case Nil
      with Cons stop show ?thesis by (auto simp: comma_def dquote_def line_end_def newline_def)
    next
      case (Cons a as)
      with \<open>s @ rest = c # cs\<close> assms(2) show ?thesis by auto
    qed
    with Cons tw dw show ?thesis
      by (simp add: csv_read_field_def)
  qed
qed

lemma csv_read_field_esc:
  assumes "CHR 0x0D \<notin> set (str v)"
    and "rest = [] \<or> hd rest = comma \<or> line_end (hd rest)"
  shows "csv_read_field (esc str (Some v) @ rest) = Some (str v, rest)"
proof (cases "comma \<in> set (str v) \<or> dquote \<in> set (str v) \<or> newline \<in> set (str v)")
  case True
  have "rest = [] \<or> hd rest \<noteq> dquote"
    using assms(2) by (auto simp: comma_def dquote_def line_end_def newline_def)
  then show ?thesis
    using True read_quoted_double_quotes [of rest "str v"]
    by (simp add: esc_Some csv_read_field_def)
next
  case False
  then show ?thesis
    using read_plain [of "str v" rest] assms by (simp add: esc_Some)
qed

text \<open>
  C8. \<^verbatim>\<open>esc\<close> renders \<^verbatim>\<open>None\<close> as the empty text. The rendering of any other value is
  wrapped in double quotes if and only if the value's text contains a comma, a double quote
  or a newline; it is then the text with every double quote doubled, between two double
  quotes, and the text itself otherwise. The note \<^verbatim>\<open>He said "hi", then left\<close> renders as
  \<^verbatim>\<open>"He said ""hi"", then left"\<close>, and a standard CSV reader gets the note back from it.
  More generally the reader gets back every text without a carriage return from its
  rendering, when the rendering is followed by a comma, a line end or nothing.
\<close>

theorem esc_csv_field:
  "esc str None = []
   \<and> (wrapped (esc str (Some v)) \<longleftrightarrow>
        comma \<in> set (str v) \<or> dquote \<in> set (str v) \<or> newline \<in> set (str v))
   \<and> esc str (Some v) =
       (if comma \<in> set (str v) \<or> dquote \<in> set (str v) \<or> newline \<in> set (str v)
        then [dquote] @ double_quotes (str v) @ [dquote] else str v)
   \<and> esc (\<lambda>s. s) (Some said_hi) = said_hi_csv
   \<and> csv_read_field said_hi_csv = Some (said_hi, [])
   \<and> (CHR 0x0D \<notin> set (str v) \<and> (rest = [] \<or> hd rest = comma \<or> line_end (hd rest)) \<longrightarrow>
        csv_read_field (esc str (Some v) @ rest) = Some (str v, rest))"
proof -
  have none: "esc str None = []"
    by (simp add: esc_def)
  have example: "esc (\<lambda>s. s) (Some said_hi) = said_hi_csv"
    by (simp add: esc_Some said_hi_def said_hi_csv_def double_quotes_def comma_def dquote_def
          newline_def)
  have "csv_read_field (esc (\<lambda>s. s) (Some said_hi) @ []) = Some (said_hi, [])"
    by (rule csv_read_field_esc) (simp_all add: said_hi_def dquote_def)
  then have reread: "csv_read_field said_hi_csv = Some (said_hi, [])"
    by (simp add: example)
  show ?thesis
    using none wrapped_esc [of str v] esc_Some [of str v] example reread
      csv_read_field_esc [of str v rest]
    by blast
qed

theorem esc_csv_field_witness:
  "csv_read_field (esc (\<lambda>s. s) (Some ''a,b'') @ '',next'') = Some (''a,b'', '',next'')
   \<and> wrapped (esc (\<lambda>s. s) (Some ''a,b''))
   \<and> \<not> wrapped (esc (\<lambda>s. s) (Some ''ab''))"
proof -
  have cr: "CHR 0x0D \<notin> set ''a,b''" by simp
  have rest: "hd '',next'' = comma" by (simp add: comma_def)
  have yes: "comma \<in> set ''a,b''" by (simp add: comma_def)
  have no: "\<not> (comma \<in> set ''ab'' \<or> dquote \<in> set ''ab'' \<or> newline \<in> set ''ab'')"
    by (simp add: comma_def dquote_def newline_def)
  show ?thesis
    using esc_csv_field [of "\<lambda>s. s" "''a,b''" "'',next''"] esc_csv_field [of "\<lambda>s. s" "''ab''"]
      cr rest yes no
    by blast
qed

subsection \<open>Statistics\<close>

lemma stats_cmd_Inr:
  "stats_cmd fmt rows =
     Inr \<lparr>total = int (length rows), distinct_brands = count_distinct (map brand rows),
          total_stock = sum_list (map stock rows),
          avg_stock_per_frame =
            (if rows = [] then ''-''
             else fmt (of_int (sum_list (map stock rows)) / of_int (int (length rows)))),
          avg_price_txt =
            (case sql_avg (map price rows) of
               None \<Rightarrow> ''-''
             | Some a \<Rightarrow> if a \<noteq> 0 then fmt a else ''-'')\<rparr>"
  by (cases rows)
    (simp_all add: stats_cmd_def Let_def int_or_def opt_int_or_def sql_sum_def truediv_def)

text \<open>
  C9. On the empty table \<^verbatim>\<open>stats_cmd\<close> returns its figures, with "-" in place of the
  average stock per frame and of the average price. On every table it returns without a
  division error: the quotient is taken only when the number of records is not zero, and
  "-" stands in its place otherwise.
\<close>

theorem stats_cmd_empty:
  "stats_cmd fmt [] =
     Inr \<lparr>total = 0, distinct_brands = 0, total_stock = 0,
          avg_stock_per_frame = ''-'', avg_price_txt = ''-''\<rparr>
   \<and> (\<exists>s. stats_cmd fmt rows = Inr s
          \<and> avg_stock_per_frame s =
              (if int (length rows) \<noteq> 0
               then fmt (of_int (sum_list (map stock rows)) / of_int (int (length rows)))
               else ''-''))"
  by (simp add: stats_cmd_Inr count_distinct_def sql_avg_def)

text \<open>
  C10. When the average of the recorded prices is exactly 0, the table is not empty and has
  a priced record, and yet \<^verbatim>\<open>stats_cmd\<close> shows "-" for the average price, the same text
  as on the empty table.
\<close>

theorem stats_cmd_zero_average:
  assumes "sql_avg (map price rows) = Some 0"
  shows "rows \<noteq> []
       \<and> list_ex (\<lambda>r. price r \<noteq> None) rows
       \<and> (\<exists>s s0. stats_cmd fmt rows = Inr s \<and> avg_price_txt s = ''-''
                \<and> stats_cmd fmt [] = Inr s0 \<and> avg_price_txt s0 = avg_price_txt s)"
proof -
  have ne: "rows \<noteq> []"
    using assms by (auto simp: sql_avg_def)
  have "concat (map (\<lambda>x. case x of None \<Rightarrow> [] | Some p \<Rightarrow> [p]) (map price rows)) \<noteq> []"
    using assms by (auto simp: sql_avg_def Let_def split: if_splits)
  then have priced: "list_ex (\<lambda>r. price r \<noteq> None) rows"
    by (induction rows) (auto split: option.splits)
  show ?thesis
    using ne priced assms by (simp add: stats_cmd_Inr sql_avg_def)
qed

theorem stats_cmd_zero_average_witness:
  "\<exists>s. stats_cmd (\<lambda>a. ''0.00'') [(example_frame 1 (Some ''Ray'') ''RB1'' 3)\<lparr>price := Some 0\<rparr>]
        = Inr s
      \<and> avg_price_txt s = ''-'' \<and> total s = 1"
proof -
  let ?rows = "[(example_frame 1 (Some ''Ray'') ''RB1'' 3)\<lparr>price := Some 0\<rparr>]"
  have avg: "sql_avg (map price ?rows) = Some 0"
    by (simp add: sql_avg_def example_frame_def)
  show ?thesis
    using stats_cmd_zero_average [OF avg, of "\<lambda>a. ''0.00''"] by (auto simp: stats_cmd_Inr)
qed

end
